theory Spec2Isabelle
  imports Main
begin

section \<open>JavaScript values\<close>

text \<open>
  The service handles values that come out of \<open>JSON.parse\<close> (request bodies, bus
  payloads, responses of the transcript source and of the summarizer), plus
  \<open>undefined\<close>, which reading a missing property yields. An object is the association
  list of its own properties; a lookup takes the first binding of a key.
  The service does two things with a number: it tests it with \<open>!v\<close>, and it prints it
  with \<open>String(v)\<close>. A number is kept as just these two readings, whether it differs
  from zero and what it prints as, so that nothing is assumed about how JavaScript
  prints any particular number.
\<close>

record number =
  nonzero :: bool
  printed :: string

datatype jsval =
    JUndefined
  | JNull
  | JBool bool
  | JNum number
  | JStr string
  | JArr "jsval list"
  | JObj "(string \<times> jsval) list"

text \<open>
  What the code throws. \<open>Error\<close> is \<open>new Error(message)\<close> of the source;
  \<open>TypeError\<close>, \<open>ReferenceError\<close> and \<open>SyntaxError\<close> are raised by the language
  (a property of \<open>undefined\<close>, a name that is not in scope, \<open>response.json()\<close> on a
  body that is not JSON); \<open>NatsError\<close> is what the codec of the bus client throws on a
  payload it cannot decode; \<open>FetchError\<close> is a rejected \<open>fetch\<close>; \<open>PrismaError\<close> is
  what the persistence client throws.
\<close>

datatype error =
    Error string
  | TypeError string
  | ReferenceError string
  | SyntaxError string
  | NatsError string
  | FetchError string
  | PrismaError string

fun message :: "error \<Rightarrow> string" where
  "message (Error m) = m"
| "message (TypeError m) = m"
| "message (ReferenceError m) = m"
| "message (SyntaxError m) = m"
| "message (NatsError m) = m"
| "message (FetchError m) = m"
| "message (PrismaError m) = m"

text \<open>\<open>!v\<close> is true exactly on the falsy values.\<close>

fun truthy :: "jsval \<Rightarrow> bool" where
  "truthy JUndefined = False"
| "truthy JNull = False"
| "truthy (JBool b) = b"
| "truthy (JNum n) = nonzero n"
| "truthy (JStr s) = (s \<noteq> [])"
| "truthy (JArr xs) = True"
| "truthy (JObj fs) = True"

definition quote :: string where
  "quote = [CHR 0x27]"

definition nullish :: "jsval \<Rightarrow> bool" where
  "nullish v = (v = JUndefined \<or> v = JNull)"

text \<open>
  \<open>v.k\<close> for the property names the service reads: \<open>transcription\<close>,
  \<open>transcriptionJsonUrl\<close>, \<open>lecture_id\<close>, \<open>transcription_json_url\<close>, \<open>text\<close>,
  \<open>choices\<close>, \<open>message\<close>, \<open>content\<close>. None of them is a property of a built-in
  prototype, so the value read is the own property of an object, and \<open>undefined\<close> on
  an object without it, on a primitive and on an array. On \<open>undefined\<close> and \<open>null\<close>
  the read throws.
\<close>

fun property :: "jsval \<Rightarrow> string \<Rightarrow> jsval" where
  "property (JObj fs) k = (case map_of fs k of None \<Rightarrow> JUndefined | Some v \<Rightarrow> v)"
| "property v k = JUndefined"

definition get_prop :: "jsval \<Rightarrow> string \<Rightarrow> error + jsval" where
  "get_prop v k =
     (if nullish v then
        Inl (TypeError (''Cannot read properties of '' @ (if v = JNull then ''null'' else ''undefined'')
                        @ '' (reading '' @ quote @ k @ quote @ '')''))
      else Inr (property v k))"

text \<open>\<open>v[0]\<close>: the first element of an array, the first character of a string, the
  property \<open>0\<close> of an object; it throws on \<open>undefined\<close> and \<open>null\<close>.\<close>

fun item0 :: "jsval \<Rightarrow> jsval" where
  "item0 (JArr xs) = (case xs of [] \<Rightarrow> JUndefined | x # _ \<Rightarrow> x)"
| "item0 (JStr s) = (case s of [] \<Rightarrow> JUndefined | c # _ \<Rightarrow> JStr [c])"
| "item0 (JObj fs) = (case map_of fs ''0'' of None \<Rightarrow> JUndefined | Some v \<Rightarrow> v)"
| "item0 v = JUndefined"

definition get_index0 :: "jsval \<Rightarrow> error + jsval" where
  "get_index0 v =
     (if nullish v then
        Inl (TypeError (''Cannot read properties of '' @ (if v = JNull then ''null'' else ''undefined'')
                        @ '' (reading '' @ quote @ ''0'' @ quote @ '')''))
      else Inr (item0 v))"

subsection \<open>Conversion to string\<close>

text \<open>A status code in a message: its decimal digits, the most significant first.\<close>

definition digit :: "nat \<Rightarrow> char" where
  "digit n = ''0123456789'' ! (n mod 10)"

fun digits :: "nat \<Rightarrow> string \<Rightarrow> string" where
  "digits n acc = (if n < 10 then digit n # acc else digits (n div 10) (digit n # acc))"

definition decimal :: "nat \<Rightarrow> string" where
  "decimal n = digits n []"

declare digits.simps [simp del]

text \<open>The strings of \<open>Array.prototype.join\<close>, put together: the separator goes between
  two elements, never before the first or after the last.\<close>

fun join_strings :: "string \<Rightarrow> string list \<Rightarrow> string" where
  "join_strings sep [] = []"
| "join_strings sep [s] = s"
| "join_strings sep (s # t # ts) = s @ sep @ join_strings sep (t # ts)"

text \<open>
  \<open>String(v)\<close>, as a template literal and \<open>join\<close> apply it. An object out of
  \<open>JSON.parse\<close> prints as \<open>[object Object]\<close> through the method \<open>toString\<close> it
  inherits, unless it has a property \<open>toString\<close> of its own: that one is no function,
  the inherited \<open>valueOf\<close> gives back the object, and the conversion throws. An array
  prints as its elements joined by commas. \<open>elems_toString\<close> is the walk of \<open>join\<close>
  over the elements, from the first to the last: \<open>undefined\<close> and \<open>null\<close> print as
  nothing, and the first element that cannot be converted throws.
\<close>

fun js_toString :: "jsval \<Rightarrow> error + string"
  and elems_toString :: "jsval list \<Rightarrow> error + string list" where
  "js_toString JUndefined = Inr ''undefined''"
| "js_toString JNull = Inr ''null''"
| "js_toString (JBool b) = Inr (if b then ''true'' else ''false'')"
| "js_toString (JNum n) = Inr (printed n)"
| "js_toString (JStr s) = Inr s"
| "js_toString (JArr xs) =
     (case elems_toString xs of
        Inl err \<Rightarrow> Inl err
      | Inr ss \<Rightarrow> Inr (join_strings '','' ss))"
| "js_toString (JObj fs) =
     (case map_of fs ''toString'' of
        None \<Rightarrow> Inr ''[object Object]''
      | Some f \<Rightarrow> Inl (TypeError ''Cannot convert object to primitive value''))"
| "elems_toString [] = Inr []"
| "elems_toString (x # xs) =
     (case (if x = JUndefined \<or> x = JNull then Inr [] else js_toString x) of
        Inl err \<Rightarrow> Inl err
      | Inr s \<Rightarrow>
          (case elems_toString xs of
             Inl err \<Rightarrow> Inl err
           | Inr ss \<Rightarrow> Inr (s # ss)))"

text \<open>\<open>xs.join(sep)\<close>.\<close>

definition js_join :: "string \<Rightarrow> jsval list \<Rightarrow> error + string" where
  "js_join sep xs =
     (case elems_toString xs of
        Inl err \<Rightarrow> Inl err
      | Inr ss \<Rightarrow> Inr (join_strings sep ss))"

section \<open>The world the service runs in\<close>

text \<open>
  The column \<open>lecture_id\<close> of the migration has the type \<open>UUID\<close>. The persistence
  client reads the string it is given as a UUID before it queries or inserts: 32
  hexadecimal digits, written in one piece or in the groups 8-4-4-4-12, the groups
  also in braces or after \<open>urn:uuid:\<close>. Letters of either case denote the same UUID;
  \<open>read_uuid\<close> gives its digits in lower case, and \<open>None\<close> for a string that is no
  UUID, which the client rejects.
\<close>

definition hex_lower :: "char \<Rightarrow> char option" where
  "hex_lower c =
     (if c \<in> set ''0123456789abcdef'' then Some c else map_of (zip ''ABCDEF'' ''abcdef'') c)"

definition simple_uuid :: "string \<Rightarrow> string option" where
  "simple_uuid s = (if length s = 32 then those (map hex_lower s) else None)"

definition hyphenated_uuid :: "string \<Rightarrow> string option" where
  "hyphenated_uuid s =
     (if length s = 36 \<and> s ! 8 = CHR ''-'' \<and> s ! 13 = CHR ''-'' \<and> s ! 18 = CHR ''-''
         \<and> s ! 23 = CHR ''-''
      then simple_uuid (take 8 s @ take 4 (drop 9 s) @ take 4 (drop 14 s) @ take 4 (drop 19 s)
                        @ drop 24 s)
      else None)"

definition read_uuid :: "string \<Rightarrow> string option" where
  "read_uuid s =
     (if length s = 32 then simple_uuid s
      else if length s = 36 then hyphenated_uuid s
      else if length s = 38 \<and> hd s = CHR ''{'' \<and> last s = CHR ''}'' then
        hyphenated_uuid (butlast (tl s))
      else if length s = 45 \<and> take 9 s = ''urn:uuid:'' then hyphenated_uuid (drop 9 s)
      else None)"

text \<open>
  One row of the table \<open>Summary\<close> of the migration: \<open>id\<close>, \<open>lecture_id\<close> (the digits
  of the UUID), \<open>summary_text\<close>, and \<open>timestamp\<close> (milliseconds, defaulting to the
  time of the insert).
\<close>

record summary_row =
  id :: nat
  lecture_id :: string
  summary_text :: string
  timestamp :: nat

datatype level = Info | Warn | Err

text \<open>A log record: \<open>logger.error(error, msg)\<close> carries the error object,
  \<open>logger.info(msg)\<close> and \<open>logger.error(msg)\<close> carry none.\<close>

record log_entry =
  lvl :: level
  cause :: "error option"
  msg :: string

text \<open>What \<open>fetch\<close> resolves to. \<open>body\<close> is the parsed body, \<open>None\<close> when the
  body is not JSON, in which case \<open>response.json()\<close> rejects.\<close>

record response =
  status :: nat
  statusText :: string
  body :: "jsval option"

text \<open>\<open>response.ok\<close> of the Fetch API: the status is in the range 200 to 299.\<close>

definition ok :: "response \<Rightarrow> bool" where
  "ok r = (200 \<le> status r \<and> status r \<le> 299)"

definition json :: "response \<Rightarrow> error + jsval" where
  "json r = (case body r of
       None \<Rightarrow> Inl (SyntaxError ''Unexpected token in JSON'')
     | Some v \<Rightarrow> Inr v)"

text \<open>
  The collaborators the service calls, as they answer during one run:
  \<^item> \<open>fetch_get url\<close>: \<open>fetch(jsonUrl)\<close>, the transcript source;
  \<^item> \<open>summarizer transcription\<close>: the \<open>POST\<close> to the chat-completions endpoint whose
    user message is \<open>transcription\<close> (the rest of the request is constant);
  \<^item> \<open>db_fault\<close>: the error a call of the persistence client throws because the
    store cannot be reached, \<open>None\<close> when the store answers.
\<close>

record env =
  fetch_get :: "jsval \<Rightarrow> error + response"
  summarizer :: "jsval \<Rightarrow> error + response"
  db_fault :: "error option"

text \<open>The closure that \<open>setImmediate\<close> receives in the \<open>POST\<close> handler: the three
  variables of the handler it captures.\<close>

record job =
  job_lectureId :: string
  job_transcription :: jsval
  job_transcriptionJsonUrl :: jsval

text \<open>
  The state the service changes: the table, the clock that stamps inserts, the log,
  the transcript URLs fetched so far, the transcripts sent to the summarizer so far,
  and the callbacks handed to \<open>setImmediate\<close> that have not run yet.
\<close>

record world =
  rows :: "summary_row list"
  now :: nat
  log :: "log_entry list"
  fetched :: "jsval list"
  summarized :: "jsval list"
  immediates :: "job list"

definition log_info :: "string \<Rightarrow> world \<Rightarrow> world" where
  "log_info m w = w\<lparr>log := log w @ [\<lparr>lvl = Info, cause = None, msg = m\<rparr>]\<rparr>"

definition log_warn :: "string \<Rightarrow> world \<Rightarrow> world" where
  "log_warn m w = w\<lparr>log := log w @ [\<lparr>lvl = Warn, cause = None, msg = m\<rparr>]\<rparr>"

definition log_error :: "error option \<Rightarrow> string \<Rightarrow> world \<Rightarrow> world" where
  "log_error c m w = w\<lparr>log := log w @ [\<lparr>lvl = Err, cause = c, msg = m\<rparr>]\<rparr>"

section \<open>Summary store\<close>

text \<open>
  \<open>prisma.summary.findFirst\<close> with \<open>where: {lecture_id}\<close>,
  \<open>orderBy: {timestamp: "desc"}\<close> and \<open>select: {summary_text}\<close>: among the rows of
  the lecture, one with the greatest timestamp, or \<open>null\<close> when the lecture has
  no row. On a tie the store may answer with any of the newest rows; \<open>newest\<close> takes
  the one inserted first. The call throws when the lecture id is no UUID, and when
  the store cannot be reached.
\<close>

fun newest :: "summary_row \<Rightarrow> summary_row list \<Rightarrow> summary_row" where
  "newest best [] = best"
| "newest best (r # rs) = newest (if timestamp best < timestamp r then r else best) rs"

definition findFirst :: "env \<Rightarrow> string \<Rightarrow> world \<Rightarrow> error + string option" where
  "findFirst e lectureId w =
     (case read_uuid lectureId of
        None \<Rightarrow> Inl (PrismaError ''Inconsistent column data: Error creating UUID'')
      | Some u \<Rightarrow>
          (case db_fault e of
             Some err \<Rightarrow> Inl err
           | None \<Rightarrow>
               (case filter (\<lambda>r. lecture_id r = u) (rows w) of
                  [] \<Rightarrow> Inr None
                | r # rs \<Rightarrow> Inr (Some (summary_text (newest r rs))))))"

text \<open>
  \<open>prisma.summary.create\<close>: both columns take strings, so the client rejects any
  other value, and a lecture id that is no UUID; an accepted insert appends one row
  with a fresh \<open>id\<close> and the current time.
\<close>

definition saveSummary :: "env \<Rightarrow> jsval \<Rightarrow> jsval \<Rightarrow> world \<Rightarrow> (error + unit) \<times> world" where
  "saveSummary e lectureId summaryText w =
     (case (lectureId, summaryText) of
        (JStr l, JStr s) \<Rightarrow>
          (case read_uuid l of
             None \<Rightarrow> (Inl (PrismaError ''Inconsistent column data: Error creating UUID''), w)
           | Some u \<Rightarrow>
               (case db_fault e of
                  Some err \<Rightarrow> (Inl err, w)
                | None \<Rightarrow>
                    (Inr (),
                     w\<lparr>rows := rows w @
                        [\<lparr>id = length (rows w), lecture_id = u, summary_text = s,
                          timestamp = now w\<rparr>]\<rparr>)))
      | _ \<Rightarrow> (Inl (PrismaError ''Invalid prisma.summary.create() invocation''), w))"

record reply =
  code :: nat
  payload :: jsval

text \<open>\<open>GET /api/lectures/:lectureId/summary\<close>.\<close>

definition get_summary :: "env \<Rightarrow> string \<Rightarrow> world \<Rightarrow> reply \<times> world" where
  "get_summary e lectureId w =
     (case findFirst e lectureId w of
        Inl err \<Rightarrow>
          (\<lparr>code = 500, payload = JObj [(''error'', JStr ''Failed to fetch summary'')]\<rparr>,
           log_error (Some err) ''Failed to fetch summary'' w)
      | Inr None \<Rightarrow>
          (\<lparr>code = 404, payload = JObj [(''error'', JStr ''Summary not found'')]\<rparr>, w)
      | Inr (Some text) \<Rightarrow>
          (\<lparr>code = 200, payload = JObj [(''summary'', JStr text)]\<rparr>, w))"

section \<open>Transcript source\<close>

text \<open>\<open>data.map(entry => entry.text)\<close>: only an array has \<open>map\<close>; the callback throws
  on a \<open>null\<close> entry, which ends the traversal.\<close>

fun entry_texts :: "jsval list \<Rightarrow> error + jsval list" where
  "entry_texts [] = Inr []"
| "entry_texts (entry # entries) =
     (case get_prop entry ''text'' of
        Inl err \<Rightarrow> Inl err
      | Inr t \<Rightarrow> (case entry_texts entries of Inl err \<Rightarrow> Inl err | Inr ts \<Rightarrow> Inr (t # ts)))"

fun map_text :: "jsval \<Rightarrow> error + jsval list" where
  "map_text (JArr entries) = entry_texts entries"
| "map_text JUndefined =
     Inl (TypeError (''Cannot read properties of undefined (reading '' @ quote @ ''map'' @ quote @ '')''))"
| "map_text JNull =
     Inl (TypeError (''Cannot read properties of null (reading '' @ quote @ ''map'' @ quote @ '')''))"
| "map_text v = Inl (TypeError ''data.map is not a function'')"

definition newline :: string where
  "newline = [CHR 0x0A]"

definition retrieveJsonTranscription :: "env \<Rightarrow> jsval \<Rightarrow> world \<Rightarrow> (error + jsval) \<times> world" where
  "retrieveJsonTranscription e jsonUrl w =
     (let w1 = w\<lparr>fetched := fetched w @ [jsonUrl]\<rparr> in
      case fetch_get e jsonUrl of
        Inl err \<Rightarrow> (Inl err, w1)
      | Inr response \<Rightarrow>
          if \<not> ok response then
            (Inl (Error (''Failed to fetch transcription JSON: '' @ decimal (status response)
                         @ '' '' @ statusText response)), w1)
          else
            (case json response of
               Inl err \<Rightarrow> (Inl err, w1)
             | Inr data \<Rightarrow>
                 (case map_text data of
                    Inl err \<Rightarrow> (Inl err, w1)
                  | Inr lines \<Rightarrow>
                      (case js_join newline lines of
                         Inl err \<Rightarrow> (Inl err, w1)
                       | Inr transcription \<Rightarrow> (Inr (JStr transcription), w1)))))"

section \<open>Summarizer client\<close>

text \<open>\<open>data.choices[0].message.content\<close>, read from left to right.\<close>

definition first_choice_content :: "jsval \<Rightarrow> error + jsval" where
  "first_choice_content data =
     (case get_prop data ''choices'' of
        Inl err \<Rightarrow> Inl err
      | Inr choices \<Rightarrow>
          (case get_index0 choices of
             Inl err \<Rightarrow> Inl err
           | Inr choice \<Rightarrow>
               (case get_prop choice ''message'' of
                  Inl err \<Rightarrow> Inl err
                | Inr m \<Rightarrow> get_prop m ''content'')))"

definition generateSummary :: "env \<Rightarrow> jsval \<Rightarrow> world \<Rightarrow> (error + jsval) \<times> world" where
  "generateSummary e transcription w =
     (let w1 = w\<lparr>summarized := summarized w @ [transcription]\<rparr> in
      case summarizer e transcription of
        Inl err \<Rightarrow> (Inl err, w1)
      | Inr response \<Rightarrow>
          if \<not> ok response then
            (let m = ''Hugging Face API error: '' @ decimal (status response)
                     @ '' '' @ statusText response
             in (Inl (Error m), log_error None m w1))
          else
            (case json response of
               Inl err \<Rightarrow> (Inl err, w1)
             | Inr data \<Rightarrow> (first_choice_content data, w1)))"

section \<open>HTTP trigger\<close>

text \<open>\<open>let { transcription, transcriptionJsonUrl } = req.body\<close>.\<close>

definition destructure_body :: "jsval \<Rightarrow> error + jsval \<times> jsval" where
  "destructure_body b =
     (if nullish b then
        Inl (TypeError (''Cannot destructure property '' @ quote @ ''transcription'' @ quote
                        @ '' of '' @ quote @ ''req.body'' @ quote @ '' as it is ''
                        @ (if b = JNull then ''null'' else ''undefined'') @ ''.''))
      else
        (case get_prop b ''transcription'' of
           Inl err \<Rightarrow> Inl err
         | Inr transcription \<Rightarrow>
             (case get_prop b ''transcriptionJsonUrl'' of
                Inl err \<Rightarrow> Inl err
              | Inr transcriptionJsonUrl \<Rightarrow> Inr (transcription, transcriptionJsonUrl))))"

text \<open>
  \<open>POST /api/lectures/:lectureId/summary\<close>. The handler runs to its end without
  awaiting anything: it either answers 400, or hands the job to \<open>setImmediate\<close> and
  answers 202. The queued callback runs only in a later phase of the event loop, so
  the world the handler leaves holds the job, not its effects. \<open>Inl\<close> is a handler
  that throws before it answers.
\<close>

definition post_summary :: "string \<Rightarrow> jsval \<Rightarrow> world \<Rightarrow> (error + reply) \<times> world" where
  "post_summary lectureId b w =
     (case destructure_body b of
        Inl err \<Rightarrow> (Inl err, w)
      | Inr (transcription, transcriptionJsonUrl) \<Rightarrow>
          if \<not> truthy transcription \<and> \<not> truthy transcriptionJsonUrl then
            (Inr \<lparr>code = 400,
                  payload = JObj [(''error'',
                    JStr ''Missing transcription or transcriptionJsonUrl in request body'')]\<rparr>,
             w)
          else
            (Inr \<lparr>code = 202, payload = JObj [(''message'', JStr ''Summary generation started'')]\<rparr>,
             w\<lparr>immediates := immediates w @
                  [\<lparr>job_lectureId = lectureId, job_transcription = transcription,
                    job_transcriptionJsonUrl = transcriptionJsonUrl\<rparr>]\<rparr>))"

section \<open>Job runner\<close>

text \<open>
  The first statement of the job: \<open>if (!transcription) { ... }\<close>, which leaves the
  transcript the later steps use. The template literal of the log line converts the
  URL to a string before anything is fetched, and throws when that cannot be done.
\<close>

definition resolve_transcription :: "env \<Rightarrow> job \<Rightarrow> world \<Rightarrow> (error + jsval) \<times> world" where
  "resolve_transcription e j w =
     (if \<not> truthy (job_transcription j) then
        (case js_toString (job_transcriptionJsonUrl j) of
           Inl err \<Rightarrow> (Inl err, w)
         | Inr url \<Rightarrow>
             retrieveJsonTranscription e (job_transcriptionJsonUrl j)
               (log_info (''Fetching transcription JSON from '' @ url) w))
      else (Inr (job_transcription j), w))"

text \<open>The \<open>try\<close> block of the job.\<close>

definition summary_job_try :: "env \<Rightarrow> job \<Rightarrow> world \<Rightarrow> (error + unit) \<times> world" where
  "summary_job_try e j w =
     (case resolve_transcription e j w of
        (Inl err, w1) \<Rightarrow> (Inl err, w1)
      | (Inr transcription, w1) \<Rightarrow>
          (case generateSummary e transcription
                  (log_info (''Generating summary for lecture '' @ job_lectureId j) w1) of
             (Inl err, w2) \<Rightarrow> (Inl err, w2)
           | (Inr summaryText, w2) \<Rightarrow>
               saveSummary e (JStr (job_lectureId j)) summaryText
                 (log_info (''Saving summary for lecture '' @ job_lectureId j) w2)))"

text \<open>The job with its \<open>catch\<close> block, which logs the error and returns.\<close>

definition summary_job :: "env \<Rightarrow> job \<Rightarrow> world \<Rightarrow> world" where
  "summary_job e j w =
     (case summary_job_try e j w of
        (Inl err, w1) \<Rightarrow>
          log_error (Some err)
            (''Failed to generate or save summary for lecture '' @ job_lectureId j) w1
      | (Inr u, w1) \<Rightarrow> w1)"

text \<open>
  The event loop calling the oldest callback that \<open>setImmediate\<close> holds. The steps of
  the job are shown in one piece: a job shares nothing with other work but the table,
  to which it adds at most one row.
\<close>

definition run_next :: "env \<Rightarrow> world \<Rightarrow> world" where
  "run_next e w =
     (case immediates w of
        [] \<Rightarrow> w
      | j # js \<Rightarrow> summary_job e j (w\<lparr>immediates := js\<rparr>))"

section \<open>Bus trigger\<close>

text \<open>The \<open>try\<close> block of the handler of \<open>transcriptions.completed\<close>.\<close>

definition transcription_completed_try :: "env \<Rightarrow> jsval \<Rightarrow> world \<Rightarrow> (error + unit) \<times> world" where
  "transcription_completed_try e data w =
     (case get_prop data ''lecture_id'' of
        Inl err \<Rightarrow> (Inl err, w)
      | Inr lectureId \<Rightarrow>
          (case get_prop data ''transcription_json_url'' of
             Inl err \<Rightarrow> (Inl err, w)
           | Inr transcriptionJsonUrl \<Rightarrow>
               (case js_toString lectureId of
                  Inl err \<Rightarrow> (Inl err, w)
                | Inr lecture \<Rightarrow>
                    (case retrieveJsonTranscription e transcriptionJsonUrl
                            (log_info (''Received transcription completed message for lecture ''
                                       @ lecture) w) of
                       (Inl err, w1) \<Rightarrow> (Inl err, w1)
                     | (Inr transcription, w1) \<Rightarrow>
                         (case generateSummary e transcription w1 of
                            (Inl err, w2) \<Rightarrow> (Inl err, w2)
                          | (Inr summaryText, w2) \<Rightarrow>
                              (case saveSummary e lectureId summaryText w2 of
                                 (Inl err, w3) \<Rightarrow> (Inl err, w3)
                               | (Inr u, w3) \<Rightarrow>
                                   (case js_toString lectureId of
                                      Inl err \<Rightarrow> (Inl err, w3)
                                    | Inr saved \<Rightarrow>
                                        (Inr (),
                                         log_info (''Summary generated and saved for lecture ''
                                                   @ saved) w3))))))))"

text \<open>
  The \<open>catch\<close> block of that handler is
  \<open>logger.error(error, `Failed to generate or save summary for lecture ${lectureId}`)\<close>.
  \<open>lectureId\<close> is a \<open>const\<close> of the \<open>try\<close> block, and the module declares no other
  variable of that name, so the name is not in scope here: evaluating the template
  literal throws a \<open>ReferenceError\<close> before \<open>logger.error\<close> is called, and the error
  that was caught is dropped.
\<close>

definition transcription_completed_catch :: "error \<Rightarrow> world \<Rightarrow> (error + unit) \<times> world" where
  "transcription_completed_catch err w = (Inl (ReferenceError ''lectureId is not defined''), w)"

definition transcription_completed :: "env \<Rightarrow> jsval \<Rightarrow> world \<Rightarrow> (error + unit) \<times> world" where
  "transcription_completed e data w =
     (case transcription_completed_try e data w of
        (Inl err, w1) \<Rightarrow> transcription_completed_catch err w1
      | (Inr u, w1) \<Rightarrow> (Inr u, w1))"

text \<open>A message of the bus: its payload either decodes to a JSON value or is not
  JSON, and then \<open>jc.decode\<close> throws.\<close>

datatype bus_message = Json jsval | NotJson string

fun decode :: "bus_message \<Rightarrow> error + jsval" where
  "decode (Json v) = Inr v"
| "decode (NotJson bytes) = Inl (NatsError ''BAD_JSON'')"

text \<open>
  The loop that \<open>subscribeJson\<close> starts, over the messages that arrive, in order. The
  call of \<open>jc.decode\<close> stands before the \<open>try\<close>: when it throws, the exception leaves
  the \<open>for await\<close> loop and the anonymous async function that runs it, and no later
  message is read (\<open>Inl\<close>). An exception of the handler is caught and logged, and the
  loop goes on.
\<close>

fun subscription_loop ::
  "string \<Rightarrow> (jsval \<Rightarrow> world \<Rightarrow> (error + unit) \<times> world) \<Rightarrow> bus_message list \<Rightarrow> world
   \<Rightarrow> (error + unit) \<times> world" where
  "subscription_loop subject handler [] w = (Inr (), w)"
| "subscription_loop subject handler (m # ms) w =
     (case decode m of
        Inl err \<Rightarrow> (Inl err, w)
      | Inr data \<Rightarrow>
          (case handler data w of
             (Inl err, w1) \<Rightarrow>
               subscription_loop subject handler ms
                 (log_error None
                    (''Error handling message on subject '' @ subject @ '': '' @ message err) w1)
           | (Inr u, w1) \<Rightarrow> subscription_loop subject handler ms w1))"

text \<open>
  \<open>subscribeJson\<close>, followed by the arrival of the messages \<open>ms\<close>. Without a
  connection (\<open>nc\<close> is \<open>null\<close>) it warns and returns. With one, the loop is started and
  suspends at once waiting for a message, so the record of the subscription is logged
  before the first message is handled.
\<close>

definition subscribeJson ::
  "bool \<Rightarrow> string \<Rightarrow> (jsval \<Rightarrow> world \<Rightarrow> (error + unit) \<times> world) \<Rightarrow> bus_message list \<Rightarrow> world
   \<Rightarrow> (error + unit) \<times> world" where
  "subscribeJson nc subject handler ms w =
     (if \<not> nc then
        (Inr (), log_warn ''NATS connection not established, cannot subscribe to messages'' w)
      else
        subscription_loop subject handler ms (log_info (''Subscribed to NATS subject: '' @ subject) w))"

text \<open>\<open>subscribeJson("transcriptions.completed", ...)\<close> of the service, on a connected
  bus.\<close>

definition completed_subscription :: "env \<Rightarrow> bus_message list \<Rightarrow> world \<Rightarrow> (error + unit) \<times> world" where
  "completed_subscription e ms w =
     subscribeJson True ''transcriptions.completed'' (transcription_completed e) ms w"

section \<open>Sample runs\<close>

text \<open>A world in which nothing has happened yet, and collaborators that give the same
  answer to every call: the transcript source answers \<open>t\<close>, the summarizer answers
  \<open>s\<close>, and the store is reachable.\<close>

definition initial_world :: world where
  "initial_world = \<lparr>rows = [], now = 0, log = [], fetched = [], summarized = [], immediates = []\<rparr>"

definition answering :: "error + response \<Rightarrow> error + response \<Rightarrow> env" where
  "answering t s = \<lparr>fetch_get = (\<lambda>url. t), summarizer = (\<lambda>transcription. s), db_fault = None\<rparr>"

definition ok_json :: "jsval \<Rightarrow> error + response" where
  "ok_json v = Inr \<lparr>status = 200, statusText = ''OK'', body = Some v\<rparr>"

definition not_found :: "error + response" where
  "not_found = Inr \<lparr>status = 404, statusText = ''Not Found'', body = None\<rparr>"

definition completion :: "string \<Rightarrow> jsval" where
  "completion c = JObj [(''choices'', JArr [JObj [(''message'', JObj [(''content'', JStr c)])]])]"

definition segments :: "string list \<Rightarrow> jsval" where
  "segments ts = JArr (map (\<lambda>t. JObj [(''text'', JStr t)]) ts)"

text \<open>Three lecture ids as a client sends them, and the digits the store keeps for
  them. The second spells the UUID in capitals.\<close>

definition lecture_a :: string where
  "lecture_a = ''0a1b2c3d-0000-4000-8000-00000000000a''"

definition lecture_b :: string where
  "lecture_b = ''0A1B2C3D-0000-4000-8000-00000000000B''"

definition lecture_c :: string where
  "lecture_c = ''0a1b2c3d-0000-4000-8000-00000000000c''"

definition digits_a :: string where
  "digits_a = ''0a1b2c3d00004000800000000000000a''"

definition digits_b :: string where
  "digits_b = ''0a1b2c3d00004000800000000000000b''"

definition digits_c :: string where
  "digits_c = ''0a1b2c3d00004000800000000000000c''"

text \<open>A table in which storage order and time order differ, and a store that
  cannot be reached.\<close>

definition sample_table :: world where
  "sample_table = initial_world\<lparr>rows :=
     [\<lparr>id = 0, lecture_id = digits_a, summary_text = ''second take'', timestamp = 9\<rparr>,
      \<lparr>id = 1, lecture_id = digits_a, summary_text = ''first take'', timestamp = 5\<rparr>,
      \<lparr>id = 2, lecture_id = digits_b, summary_text = ''another lecture'', timestamp = 12\<rparr>],
     now := 20\<rparr>"

definition unreachable :: env where
  "unreachable = (answering not_found not_found)\<lparr>db_fault := Some (PrismaError ''Can not reach database server'')\<rparr>"

section \<open>How each step changes the world\<close>

declare nullish_def [simp] get_prop_def [simp] get_index0_def [simp]

lemma log_info_fields [simp]:
  "rows (log_info m w) = rows w"
  "fetched (log_info m w) = fetched w"
  "summarized (log_info m w) = summarized w"
  "immediates (log_info m w) = immediates w"
  "now (log_info m w) = now w"
  "log (log_info m w) = log w @ [\<lparr>lvl = Info, cause = None, msg = m\<rparr>]"
  by (simp_all add: log_info_def)

lemma log_error_fields [simp]:
  "rows (log_error c m w) = rows w"
  "fetched (log_error c m w) = fetched w"
  "summarized (log_error c m w) = summarized w"
  "immediates (log_error c m w) = immediates w"
  "now (log_error c m w) = now w"
  "log (log_error c m w) = log w @ [\<lparr>lvl = Err, cause = c, msg = m\<rparr>]"
  by (simp_all add: log_error_def)

lemma retrieve_fields:
  "rows (snd (retrieveJsonTranscription e u w)) = rows w"
  "fetched (snd (retrieveJsonTranscription e u w)) = fetched w @ [u]"
  "summarized (snd (retrieveJsonTranscription e u w)) = summarized w"
  "log (snd (retrieveJsonTranscription e u w)) = log w"
  by (simp_all add: retrieveJsonTranscription_def Let_def split: sum.splits)

lemma uuid_samples:
  "read_uuid lecture_a = Some digits_a"
  "read_uuid lecture_b = Some digits_b"
  "read_uuid lecture_c = Some digits_c"
  "read_uuid ''L1'' = None"
  by (simp_all add: lecture_a_def lecture_b_def lecture_c_def digits_a_def digits_b_def digits_c_def
        read_uuid_def hyphenated_uuid_def simple_uuid_def hex_lower_def)

lemma generate_fields:
  "rows (snd (generateSummary e t w)) = rows w"
  "fetched (snd (generateSummary e t w)) = fetched w"
  "summarized (snd (generateSummary e t w)) = summarized w @ [t]"
  by (simp_all add: generateSummary_def Let_def split: sum.splits)

lemma save_fields:
  "fetched (snd (saveSummary e l s w)) = fetched w"
  "summarized (snd (saveSummary e l s w)) = summarized w"
  "log (snd (saveSummary e l s w)) = log w"
  by (simp_all add: saveSummary_def split: jsval.splits option.splits)

lemma save_failure_unchanged: "saveSummary e l s w = (Inl err, w1) \<Longrightarrow> w1 = w"
  by (auto simp: saveSummary_def split: jsval.splits option.splits)

lemma resolve_fields:
  "rows (snd (resolve_transcription e j w)) = rows w"
  "summarized (snd (resolve_transcription e j w)) = summarized w"
  "fetched (snd (resolve_transcription e j w)) =
     (if truthy (job_transcription j) then fetched w
      else case js_toString (job_transcriptionJsonUrl j) of
             Inl err \<Rightarrow> fetched w
           | Inr url \<Rightarrow> fetched w @ [job_transcriptionJsonUrl j])"
  by (simp_all add: resolve_transcription_def retrieve_fields split: sum.splits)

text \<open>The three steps of the job, taken apart: where the \<open>try\<close> block ends depends on
  the first step that fails.\<close>

lemma summary_job_try_cases:
  obtains (resolve_failed) err w1 where
      "resolve_transcription e j w = (Inl err, w1)"
      "summary_job_try e j w = (Inl err, w1)"
  | (summarize_failed) t w1 err w2 where
      "resolve_transcription e j w = (Inr t, w1)"
      "generateSummary e t (log_info (''Generating summary for lecture '' @ job_lectureId j) w1)
         = (Inl err, w2)"
      "summary_job_try e j w = (Inl err, w2)"
  | (saving) t w1 s w2 where
      "resolve_transcription e j w = (Inr t, w1)"
      "generateSummary e t (log_info (''Generating summary for lecture '' @ job_lectureId j) w1)
         = (Inr s, w2)"
      "summary_job_try e j w =
         saveSummary e (JStr (job_lectureId j)) s
           (log_info (''Saving summary for lecture '' @ job_lectureId j) w2)"
proof -
  obtain r w1 where r: "resolve_transcription e j w = (r, w1)"
    by (cases "resolve_transcription e j w" rule: prod.exhaust) auto
  show thesis
  proof (cases r)
    case (Inl err)
    with r show thesis by (intro resolve_failed [of err w1]) (simp_all add: summary_job_try_def)
  next
    case (Inr t)
    let ?w1 = "log_info (''Generating summary for lecture '' @ job_lectureId j) w1"
    obtain g w2 where g: "generateSummary e t ?w1 = (g, w2)"
      by (cases "generateSummary e t ?w1" rule: prod.exhaust) auto
    show thesis
    proof (cases g)
      case (Inl err)
      with r g \<open>r = Inr t\<close> show thesis
        by (intro summarize_failed [of t w1 err w2]) (simp_all add: summary_job_try_def)
    next
      case (Inr s)
      with r g \<open>r = Inr t\<close> show thesis
        by (intro saving [of t w1 s w2]) (simp_all add: summary_job_try_def)
    qed
  qed
qed

lemma summary_job_fields:
  "fetched (summary_job e j w) = fetched (snd (summary_job_try e j w))"
  "summarized (summary_job e j w) = summarized (snd (summary_job_try e j w))"
  "rows (summary_job e j w) = rows (snd (summary_job_try e j w))"
  by (cases "summary_job_try e j w" rule: prod.exhaust; auto simp: summary_job_def split: sum.splits)+

lemma try_fetched:
  "fetched (snd (summary_job_try e j w)) =
     (if truthy (job_transcription j) then fetched w
      else case js_toString (job_transcriptionJsonUrl j) of
             Inl err \<Rightarrow> fetched w
           | Inr url \<Rightarrow> fetched w @ [job_transcriptionJsonUrl j])"
proof (cases rule: summary_job_try_cases [of e j w])
  case (resolve_failed err w1)
  then show ?thesis using resolve_fields(3) [of e j w] by simp
next
  case (summarize_failed t w1 err w2)
  then show ?thesis
    using resolve_fields(3) [of e j w]
      generate_fields(2) [of e t "log_info (''Generating summary for lecture '' @ job_lectureId j) w1"]
    by simp
next
  case (saving t w1 s w2)
  then show ?thesis
    using resolve_fields(3) [of e j w]
      generate_fields(2) [of e t "log_info (''Generating summary for lecture '' @ job_lectureId j) w1"]
    by (simp add: save_fields)
qed

lemma job_fetched:
  "fetched (summary_job e j w) =
     (if truthy (job_transcription j) then fetched w
      else case js_toString (job_transcriptionJsonUrl j) of
             Inl err \<Rightarrow> fetched w
           | Inr url \<Rightarrow> fetched w @ [job_transcriptionJsonUrl j])"
  by (simp only: summary_job_fields try_fetched)

lemma try_summarized:
  assumes "fst (resolve_transcription e j w) = Inr t"
  shows "summarized (snd (summary_job_try e j w)) = summarized w @ [t]"
proof (cases rule: summary_job_try_cases [of e j w])
  case (resolve_failed err w1)
  then show ?thesis using assms by simp
next
  case (summarize_failed t' w1 err w2)
  then show ?thesis
    using assms resolve_fields(2) [of e j w]
      generate_fields(3) [of e t' "log_info (''Generating summary for lecture '' @ job_lectureId j) w1"]
    by simp
next
  case (saving t' w1 s w2)
  then show ?thesis
    using assms resolve_fields(2) [of e j w]
      generate_fields(3) [of e t' "log_info (''Generating summary for lecture '' @ job_lectureId j) w1"]
    by (simp add: save_fields)
qed

lemma job_summarized:
  "fst (resolve_transcription e j w) = Inr t \<Longrightarrow> summarized (summary_job e j w) = summarized w @ [t]"
  by (simp only: summary_job_fields try_summarized)

section \<open>The read path answers with the latest summary\<close>

lemma newest_in: "newest b rs \<in> set (b # rs)"
  by (induction rs arbitrary: b) auto

lemma newest_ge_start: "timestamp b \<le> timestamp (newest b rs)"
proof (induction rs arbitrary: b)
  case Nil
  show ?case by simp
next
  case (Cons r rs)
  have "timestamp b \<le> timestamp (if timestamp b < timestamp r then r else b)" by simp
  also have "\<dots> \<le> timestamp (newest (if timestamp b < timestamp r then r else b) rs)"
    by (rule Cons.IH)
  finally show ?case by simp
qed

lemma newest_ge_all: "r \<in> set rs \<Longrightarrow> timestamp r \<le> timestamp (newest b rs)"
proof (induction rs arbitrary: b)
  case Nil
  then show ?case by simp
next
  case (Cons x xs)
  show ?case
  proof (cases "r = x")
    case True
    have "timestamp x \<le> timestamp (if timestamp b < timestamp x then x else b)" by simp
    also have "\<dots> \<le> timestamp (newest (if timestamp b < timestamp x then x else b) xs)"
      by (rule newest_ge_start)
    finally show ?thesis using True by simp
  next
    case False
    with Cons.prems have "r \<in> set xs" by simp
    then show ?thesis using Cons.IH by simp
  qed
qed

text \<open>
  C1, as the specification states it, does not hold. \<open>L1\<close> is a lecture id with no
  stored row, yet \<open>GET\<close> answers 500, not 404: the column is of type UUID, the
  client rejects the id, and the handler's \<open>catch\<close> answers. The same happens for a
  UUID without a row when the store cannot be reached.
\<close>

theorem get_summary_not_uuid_counterexample:
  "get_summary (answering not_found not_found) ''L1'' initial_world =
     (\<lparr>code = 500, payload = JObj [(''error'', JStr ''Failed to fetch summary'')]\<rparr>,
      initial_world\<lparr>log :=
        [\<lparr>lvl = Err, cause = Some (PrismaError ''Inconsistent column data: Error creating UUID''),
          msg = ''Failed to fetch summary''\<rparr>]\<rparr>) \<and>
   fst (get_summary unreachable lecture_c sample_table) =
     \<lparr>code = 500, payload = JObj [(''error'', JStr ''Failed to fetch summary'')]\<rparr>"
  by (simp add: get_summary_def findFirst_def uuid_samples unreachable_def answering_def
        log_error_def initial_world_def)

text \<open>
  C1, amended. For a lecture id that is a UUID, while the store answers: \<open>GET\<close>
  answers 404 when the lecture has no row, and otherwise 200 with the \<open>summary_text\<close>
  of one of its rows whose \<open>timestamp\<close> no other row of the lecture exceeds; neither
  answer changes the world. For a lecture id that is no UUID, and whenever the store
  cannot be reached, \<open>GET\<close> answers 500 and the table is as it was.
\<close>

theorem get_summary_latest:
  "(read_uuid lectureId = None \<or> db_fault e \<noteq> None \<longrightarrow>
      fst (get_summary e lectureId w) =
        \<lparr>code = 500, payload = JObj [(''error'', JStr ''Failed to fetch summary'')]\<rparr> \<and>
      rows (snd (get_summary e lectureId w)) = rows w) \<and>
   (read_uuid lectureId = Some u \<and> db_fault e = None \<longrightarrow>
      ((\<forall>r \<in> set (rows w). lecture_id r \<noteq> u) \<longrightarrow>
         get_summary e lectureId w =
           (\<lparr>code = 404, payload = JObj [(''error'', JStr ''Summary not found'')]\<rparr>, w)) \<and>
      ((\<exists>r \<in> set (rows w). lecture_id r = u) \<longrightarrow>
         (\<exists>r \<in> set (rows w). lecture_id r = u \<and>
            (\<forall>r' \<in> set (rows w). lecture_id r' = u \<longrightarrow> timestamp r' \<le> timestamp r) \<and>
            get_summary e lectureId w =
              (\<lparr>code = 200, payload = JObj [(''summary'', JStr (summary_text r))]\<rparr>, w))))"
proof (intro conjI impI)
  assume "read_uuid lectureId = None \<or> db_fault e \<noteq> None"
  then have "\<exists>err. findFirst e lectureId w = Inl err"
    by (cases "read_uuid lectureId"; cases "db_fault e") (auto simp: findFirst_def)
  then obtain err where f: "findFirst e lectureId w = Inl err" ..
  then show "fst (get_summary e lectureId w) =
        \<lparr>code = 500, payload = JObj [(''error'', JStr ''Failed to fetch summary'')]\<rparr>"
    by (simp add: get_summary_def)
  from f show "rows (snd (get_summary e lectureId w)) = rows w"
    by (simp add: get_summary_def)
next
  let ?ms = "filter (\<lambda>r. lecture_id r = u) (rows w)"
  assume up: "read_uuid lectureId = Some u \<and> db_fault e = None"
  {
    assume "\<forall>r \<in> set (rows w). lecture_id r \<noteq> u"
    then have "?ms = []" by (simp add: filter_empty_conv)
    then show "get_summary e lectureId w =
             (\<lparr>code = 404, payload = JObj [(''error'', JStr ''Summary not found'')]\<rparr>, w)"
      using up by (simp add: get_summary_def findFirst_def)
  }
  {
    assume "\<exists>r \<in> set (rows w). lecture_id r = u"
    then have "?ms \<noteq> []" by (auto simp: filter_empty_conv)
    then obtain m ms where ms: "?ms = m # ms" by (cases ?ms) auto
    let ?b = "newest m ms"
    have mem: "?b \<in> set ?ms" using newest_in [of m ms] ms by simp
    then have in_rows: "?b \<in> set (rows w)" and same: "lecture_id ?b = u" by auto
    have top: "timestamp r' \<le> timestamp ?b"
      if "r' \<in> set (rows w)" "lecture_id r' = u" for r'
    proof -
      from that have "r' \<in> set (m # ms)" using ms [symmetric] by simp
      then show ?thesis using newest_ge_start [of m ms] newest_ge_all [of r' ms m] by auto
    qed
    have "get_summary e lectureId w =
            (\<lparr>code = 200, payload = JObj [(''summary'', JStr (summary_text ?b))]\<rparr>, w)"
      using up ms by (simp add: get_summary_def findFirst_def)
    with in_rows same top show "\<exists>r \<in> set (rows w). lecture_id r = u \<and>
              (\<forall>r' \<in> set (rows w). lecture_id r' = u \<longrightarrow> timestamp r' \<le> timestamp r) \<and>
              get_summary e lectureId w =
                (\<lparr>code = 200, payload = JObj [(''summary'', JStr (summary_text r))]\<rparr>, w)"
      by blast
  }
qed

text \<open>In the sample table the newer summary of the first lecture was stored before the
  older one; the third lecture has none; \<open>L1\<close> is no UUID.\<close>

theorem get_summary_latest_witness:
  "get_summary (answering not_found not_found) lecture_a sample_table =
     (\<lparr>code = 200, payload = JObj [(''summary'', JStr ''second take'')]\<rparr>, sample_table) \<and>
   get_summary (answering not_found not_found) lecture_c sample_table =
     (\<lparr>code = 404, payload = JObj [(''error'', JStr ''Summary not found'')]\<rparr>, sample_table) \<and>
   fst (get_summary (answering not_found not_found) ''L1'' sample_table) =
     \<lparr>code = 500, payload = JObj [(''error'', JStr ''Failed to fetch summary'')]\<rparr>"
proof -
  let ?e = "answering not_found not_found"
  have f: "db_fault ?e = None"
    by (simp add: answering_def)
  have rs: "rows sample_table =
     [\<lparr>id = 0, lecture_id = digits_a, summary_text = ''second take'', timestamp = 9\<rparr>,
      \<lparr>id = 1, lecture_id = digits_a, summary_text = ''first take'', timestamp = 5\<rparr>,
      \<lparr>id = 2, lecture_id = digits_b, summary_text = ''another lecture'', timestamp = 12\<rparr>]"
    by (simp add: sample_table_def initial_world_def)
  have ab: "digits_a \<noteq> digits_b" "digits_a \<noteq> digits_c" "digits_b \<noteq> digits_c"
    by (simp_all add: digits_a_def digits_b_def digits_c_def)
  have one: "r \<in> set (rows sample_table) \<Longrightarrow> lecture_id r = digits_a \<Longrightarrow>
               (\<forall>r' \<in> set (rows sample_table). lecture_id r' = digits_a \<longrightarrow> timestamp r' \<le> timestamp r) \<Longrightarrow>
               summary_text r = ''second take''" for r
    using ab by (auto simp: rs)
  have ex: "\<exists>r \<in> set (rows sample_table). lecture_id r = digits_a"
    by (simp add: rs)
  have no: "\<forall>r \<in> set (rows sample_table). lecture_id r \<noteq> digits_c"
    using ab by (auto simp: rs)
  from get_summary_latest [of lecture_a ?e sample_table digits_a] f uuid_samples(1) ex one
  have "get_summary ?e lecture_a sample_table =
     (\<lparr>code = 200, payload = JObj [(''summary'', JStr ''second take'')]\<rparr>, sample_table)"
    by auto
  moreover from get_summary_latest [of lecture_c ?e sample_table digits_c] f uuid_samples(3) no
  have "get_summary ?e lecture_c sample_table =
     (\<lparr>code = 404, payload = JObj [(''error'', JStr ''Summary not found'')]\<rparr>, sample_table)"
    by simp
  moreover from get_summary_latest [of "''L1''" ?e sample_table digits_a] uuid_samples(4)
  have "fst (get_summary ?e ''L1'' sample_table) =
     \<lparr>code = 500, payload = JObj [(''error'', JStr ''Failed to fetch summary'')]\<rparr>"
    by simp
  ultimately show ?thesis by simp
qed

section \<open>What the HTTP trigger accepts\<close>

text \<open>
  C2, as the specification states it, does not hold: a body whose \<open>transcription\<close>
  field is present and holds the empty string is answered 400, and no job is
  scheduled.
\<close>

theorem post_summary_present_counterexample:
  "map_of [(''transcription'', JStr [])] ''transcription'' = Some (JStr []) \<and>
   post_summary ''L1'' (JObj [(''transcription'', JStr [])]) initial_world =
     (Inr \<lparr>code = 400,
           payload = JObj [(''error'',
             JStr ''Missing transcription or transcriptionJsonUrl in request body'')]\<rparr>,
      initial_world)"
  by (simp add: post_summary_def destructure_body_def)

text \<open>
  C2, amended. For a request whose body is a JSON object: when at least one of
  \<open>transcription\<close> and \<open>transcriptionJsonUrl\<close> holds a truthy value (for a string: a
  non-empty one), the answer is 202 with a message, and the handler leaves the job in
  the queue of \<open>setImmediate\<close> without any of its effects, so the job runs after the
  answer; when both are falsy (absent, \<open>null\<close>, empty, \<open>0\<close>, \<open>false\<close>), the answer is 400
  with an error and the world is unchanged, so no job is scheduled.
\<close>

theorem post_summary_truthy:
  "post_summary lectureId (JObj fs) w =
     (let transcription = (case map_of fs ''transcription'' of None \<Rightarrow> JUndefined | Some v \<Rightarrow> v);
          transcriptionJsonUrl =
            (case map_of fs ''transcriptionJsonUrl'' of None \<Rightarrow> JUndefined | Some v \<Rightarrow> v)
      in if truthy transcription \<or> truthy transcriptionJsonUrl then
           (Inr \<lparr>code = 202, payload = JObj [(''message'', JStr ''Summary generation started'')]\<rparr>,
            w\<lparr>immediates := immediates w @
                 [\<lparr>job_lectureId = lectureId, job_transcription = transcription,
                   job_transcriptionJsonUrl = transcriptionJsonUrl\<rparr>]\<rparr>)
         else
           (Inr \<lparr>code = 400,
                 payload = JObj [(''error'',
                   JStr ''Missing transcription or transcriptionJsonUrl in request body'')]\<rparr>,
            w))"
  by (simp add: post_summary_def destructure_body_def Let_def)

theorem post_summary_truthy_witness:
  "post_summary ''L1'' (JObj [(''transcriptionJsonUrl'', JStr ''http://t/1.json'')]) initial_world =
     (Inr \<lparr>code = 202, payload = JObj [(''message'', JStr ''Summary generation started'')]\<rparr>,
      initial_world\<lparr>immediates :=
        [\<lparr>job_lectureId = ''L1'', job_transcription = JUndefined,
          job_transcriptionJsonUrl = JStr ''http://t/1.json''\<rparr>]\<rparr>)
   \<and> post_summary ''L1'' (JObj [(''transcription'', JNull)]) initial_world =
     (Inr \<lparr>code = 400,
           payload = JObj [(''error'',
             JStr ''Missing transcription or transcriptionJsonUrl in request body'')]\<rparr>,
      initial_world)"
  using post_summary_truthy [of "''L1''" "[(''transcriptionJsonUrl'', JStr ''http://t/1.json'')]" initial_world]
        post_summary_truthy [of "''L1''" "[(''transcription'', JNull)]" initial_world]
  by (simp add: initial_world_def)

text \<open>
  C10. Presence is truthiness. A body whose \<open>transcription\<close> is the empty string and
  which has no \<open>transcriptionJsonUrl\<close> is answered 400, the world unchanged. When both
  fields are present and one is truthy, the job is queued; run in any world, it uses a
  truthy inline transcription as it is, fetching nothing and sending it to the
  summarizer, so that the URL is fetched only if the inline transcription is falsy.
  With a falsy inline transcription the job fetches the URL, unless the URL cannot be
  converted to a string for the log line, in which case the job stops before the
  fetch.
\<close>

theorem presence_is_truthiness:
  "(map_of fs ''transcription'' = Some (JStr []) \<and> map_of fs ''transcriptionJsonUrl'' = None \<longrightarrow>
      post_summary lectureId (JObj fs) w =
        (Inr \<lparr>code = 400,
              payload = JObj [(''error'',
                JStr ''Missing transcription or transcriptionJsonUrl in request body'')]\<rparr>,
         w)) \<and>
   (map_of fs ''transcription'' = Some t \<and> map_of fs ''transcriptionJsonUrl'' = Some u \<and>
    (truthy t \<or> truthy u) \<longrightarrow>
      (let j = \<lparr>job_lectureId = lectureId, job_transcription = t, job_transcriptionJsonUrl = u\<rparr>
       in snd (post_summary lectureId (JObj fs) w) = w\<lparr>immediates := immediates w @ [j]\<rparr> \<and>
          (truthy t \<longrightarrow> fst (resolve_transcription e j w') = Inr t \<and>
                         fetched (summary_job e j w') = fetched w' \<and>
                         summarized (summary_job e j w') = summarized w' @ [t]) \<and>
          (fetched (summary_job e j w') \<noteq> fetched w' \<longrightarrow> \<not> truthy t) \<and>
          (\<not> truthy t \<longrightarrow>
             fetched (summary_job e j w') =
               (case js_toString u of Inl err \<Rightarrow> fetched w' | Inr url \<Rightarrow> fetched w' @ [u]))))"
proof -
  have a: "fst (resolve_transcription e j w') = Inr (job_transcription j)"
    if "truthy (job_transcription j)" for j
    using that by (simp add: resolve_transcription_def)
  show ?thesis
    by (auto simp: post_summary_def destructure_body_def Let_def job_fetched a job_summarized
             split: sum.splits)
qed

theorem presence_is_truthiness_witness:
  "post_summary ''L1'' (JObj [(''transcription'', JStr [])]) initial_world =
     (Inr \<lparr>code = 400,
           payload = JObj [(''error'',
             JStr ''Missing transcription or transcriptionJsonUrl in request body'')]\<rparr>,
      initial_world) \<and>
   fetched (summary_job (answering not_found not_found)
     \<lparr>job_lectureId = ''L1'', job_transcription = JStr [],
      job_transcriptionJsonUrl = JStr ''http://t/1.json''\<rparr> initial_world) = [JStr ''http://t/1.json''] \<and>
   fetched (summary_job (answering not_found not_found)
     \<lparr>job_lectureId = ''L1'', job_transcription = JStr ''hello'',
      job_transcriptionJsonUrl = JStr ''http://t/1.json''\<rparr> initial_world) = [] \<and>
   fetched (summary_job (answering not_found not_found)
     \<lparr>job_lectureId = ''L1'', job_transcription = JStr [],
      job_transcriptionJsonUrl = JObj [(''toString'', JNull)]\<rparr> initial_world) = []"
  using presence_is_truthiness [of "[(''transcription'', JStr []), (''transcriptionJsonUrl'', JObj [(''toString'', JNull)])]"
          "''L1''" initial_world "JStr []" "JObj [(''toString'', JNull)]" "answering not_found not_found" initial_world]
        presence_is_truthiness [of "[(''transcription'', JStr [])]" "''L1''" initial_world
          "JStr []" "JStr []" "answering not_found not_found" initial_world]
        presence_is_truthiness [of "[(''transcription'', JStr []), (''transcriptionJsonUrl'', JStr ''http://t/1.json'')]"
          "''L1''" initial_world "JStr []" "JStr ''http://t/1.json''" "answering not_found not_found" initial_world]
        presence_is_truthiness [of "[(''transcription'', JStr ''hello''), (''transcriptionJsonUrl'', JStr ''http://t/1.json'')]"
          "''L1''" initial_world "JStr ''hello''" "JStr ''http://t/1.json''" "answering not_found not_found" initial_world]
  by (simp add: initial_world_def Let_def)

section \<open>Inline transcripts\<close>

text \<open>
  C4, as the specification states it, does not hold: a job whose inline transcription
  is the empty string, scheduled because a URL came with it, fetches the URL and uses
  what the URL holds.
\<close>

theorem resolve_inline_counterexample:
  "resolve_transcription (answering (ok_json (segments [''a''])) not_found)
     \<lparr>job_lectureId = ''L1'', job_transcription = JStr [],
      job_transcriptionJsonUrl = JStr ''http://t/1.json''\<rparr> initial_world =
   (Inr (JStr ''a''),
    initial_world\<lparr>log := [\<lparr>lvl = Info, cause = None,
                            msg = ''Fetching transcription JSON from http://t/1.json''\<rparr>],
                  fetched := [JStr ''http://t/1.json'']\<rparr>)"
  by (simp add: resolve_transcription_def retrieveJsonTranscription_def answering_def ok_json_def
        segments_def initial_world_def log_info_def ok_def json_def js_join_def)

text \<open>
  C4, amended. For every job whose inline transcription is truthy (for a string:
  non-empty), the resolved transcript is the inline value, the world is untouched by
  the resolution, and the whole job fetches no transcript.
\<close>

theorem resolve_truthy_inline:
  assumes "truthy (job_transcription j)"
  shows "resolve_transcription e j w = (Inr (job_transcription j), w) \<and>
         fetched (summary_job e j w) = fetched w"
  using assms by (simp add: resolve_transcription_def job_fetched)

theorem resolve_truthy_inline_witness:
  "truthy (JStr ''hello world'') \<and>
   resolve_transcription (answering not_found not_found)
     \<lparr>job_lectureId = ''L1'', job_transcription = JStr ''hello world'',
      job_transcriptionJsonUrl = JUndefined\<rparr> initial_world =
     (Inr (JStr ''hello world''), initial_world) \<and>
   fetched (summary_job (answering not_found not_found)
     \<lparr>job_lectureId = ''L1'', job_transcription = JStr ''hello world'',
      job_transcriptionJsonUrl = JUndefined\<rparr> initial_world) = []"
  using resolve_truthy_inline [of "\<lparr>job_lectureId = ''L1'', job_transcription = JStr ''hello world'',
      job_transcriptionJsonUrl = JUndefined\<rparr>" "answering not_found not_found" initial_world]
  by (simp add: initial_world_def)

section \<open>Transcripts resolved from a URL\<close>

lemma join_strings_unfold:
  "join_strings sep ss = (case ss of [] \<Rightarrow> [] | s # rest \<Rightarrow> s @ concat (map (\<lambda>x. sep @ x) rest))"
  by (induction sep ss rule: join_strings.induct) simp_all

lemma entry_texts_of_strings:
  "list_all2 (\<lambda>x t. \<exists>fs. x = JObj fs \<and> map_of fs ''text'' = Some (JStr t)) xs ts \<Longrightarrow>
     entry_texts xs = Inr (map JStr ts)"
  by (induction xs ts rule: list_all2_induct) auto



lemma elems_of_strings: "elems_toString (map JStr ts) = Inr ts"
  by (induction ts) simp_all


lemma retrieve_ok:
  assumes "fetch_get e url = Inr r" and "ok r" and "body r = Some data"
  shows "fst (retrieveJsonTranscription e url w) =
           (case map_text data of
              Inl err \<Rightarrow> Inl err
            | Inr lines \<Rightarrow>
                (case elems_toString lines of
                   Inl err \<Rightarrow> Inl err
                 | Inr ss \<Rightarrow> Inr (JStr (join_strings newline ss))))"
    and "snd (retrieveJsonTranscription e url w) = w\<lparr>fetched := fetched w @ [url]\<rparr>"
  using assms
  by (simp_all add: retrieveJsonTranscription_def json_def js_join_def Let_def split: sum.splits)

text \<open>
  C5. When the fetch of the transcript source succeeds with a JSON array of objects
  whose \<open>text\<close> fields are the strings \<open>ts\<close>, the resolved transcript is those strings
  in the order of the array, with one newline between two neighbours.
\<close>

theorem retrieve_concatenates:
  assumes "fetch_get e url = Inr r" and "ok r" and "body r = Some (JArr xs)"
    and "list_all2 (\<lambda>x t. \<exists>fs. x = JObj fs \<and> map_of fs ''text'' = Some (JStr t)) xs ts"
  shows "retrieveJsonTranscription e url w =
           (Inr (JStr (case ts of [] \<Rightarrow> [] | t # rest \<Rightarrow> t @ concat (map (\<lambda>s. newline @ s) rest))),
            w\<lparr>fetched := fetched w @ [url]\<rparr>)"
proof -
  have "map_text (JArr xs) = Inr (map JStr ts)"
    using assms(4) by (simp add: entry_texts_of_strings)
  then have "fst (retrieveJsonTranscription e url w) = Inr (JStr (join_strings newline ts))"
    using retrieve_ok(1) [OF assms(1-3), of w] by (simp add: elems_of_strings)
  then show ?thesis
    using retrieve_ok(2) [OF assms(1-3), of w] by (simp add: join_strings_unfold prod_eq_iff)
qed

text \<open>The array \<open>[{"text":"a"},{"text":"b"}]\<close> resolves to \<open>a\<close>, a newline, \<open>b\<close>.\<close>

theorem retrieve_concatenates_witness:
  "retrieveJsonTranscription
     (answering (ok_json (JArr [JObj [(''text'', JStr ''a'')], JObj [(''text'', JStr ''b'')]])) not_found)
     (JStr ''http://t/1.json'') initial_world =
   (Inr (JStr [CHR ''a'', CHR 0x0A, CHR ''b'']),
    initial_world\<lparr>fetched := [JStr ''http://t/1.json'']\<rparr>)"
proof -
  let ?e = "answering (ok_json (JArr [JObj [(''text'', JStr ''a'')], JObj [(''text'', JStr ''b'')]])) not_found"
  let ?r = "\<lparr>status = 200, statusText = ''OK'',
             body = Some (JArr [JObj [(''text'', JStr ''a'')], JObj [(''text'', JStr ''b'')]])\<rparr>"
  have f: "fetch_get ?e (JStr ''http://t/1.json'') = Inr ?r"
    by (simp add: answering_def ok_json_def)
  have o: "ok ?r" by (simp add: ok_def)
  have b: "body ?r = Some (JArr [JObj [(''text'', JStr ''a'')], JObj [(''text'', JStr ''b'')]])"
    by simp
  have l: "list_all2 (\<lambda>x t. \<exists>fs. x = JObj fs \<and> map_of fs ''text'' = Some (JStr t))
             [JObj [(''text'', JStr ''a'')], JObj [(''text'', JStr ''b'')]] [''a'', ''b'']"
    by simp
  show ?thesis
    using retrieve_concatenates [OF f o b l, of initial_world]
    by (simp add: newline_def initial_world_def)
qed




section \<open>Answers of the summarizer\<close>

lemma generate_ok:
  assumes "summarizer e t = Inr r" and "ok r"
  shows "generateSummary e t w =
           (case body r of
              None \<Rightarrow> Inl (SyntaxError ''Unexpected token in JSON'')
            | Some data \<Rightarrow> first_choice_content data,
            w\<lparr>summarized := summarized w @ [t]\<rparr>)"
  using assms by (simp add: generateSummary_def json_def Let_def split: option.splits)

text \<open>
  C7, as the specification states it, does not hold. A 2xx body whose first choice has
  a \<open>message\<close> without \<open>content\<close>, or a \<open>message\<close> that is a string, is not of the
  shape that holds a summary, yet nothing fails: the summary returned is
  \<open>undefined\<close>.
\<close>

theorem generateSummary_shape_counterexample:
  "generateSummary
     (answering not_found (ok_json (JObj [(''choices'', JArr [JObj [(''message'', JObj [])]])])))
     (JStr ''hello'') initial_world =
     (Inr JUndefined, initial_world\<lparr>summarized := [JStr ''hello'']\<rparr>) \<and>
   generateSummary
     (answering not_found (ok_json (JObj [(''choices'', JArr [JObj [(''message'', JStr ''hi'')]])])))
     (JStr ''hello'') initial_world =
     (Inr JUndefined, initial_world\<lparr>summarized := [JStr ''hello'']\<rparr>)"
  by (simp add: generateSummary_def answering_def ok_json_def ok_def json_def first_choice_content_def
        initial_world_def Let_def)

text \<open>
  C7, amended. For every summarizer response with a 2xx status. When the body is
  JSON and the body, its \<open>choices\<close>, the first of them (\<open>choices[0]\<close>) and the
  \<open>message\<close> of that choice are each neither \<open>null\<close> nor \<open>undefined\<close>, the summary
  returned is the \<open>content\<close> of that message, which is \<open>undefined\<close>, with no failure,
  when the message has no \<open>content\<close>. For every other 2xx body the call fails: with a
  \<open>SyntaxError\<close> when the body is not JSON, and with a \<open>TypeError\<close> when one of the four
  is \<open>null\<close> or \<open>undefined\<close>, as for a body without \<open>choices\<close> or with an empty
  \<open>choices\<close> array. In particular a body whose first choice is an object with an
  object \<open>message\<close> that has a \<open>content\<close> gives that content.
\<close>

theorem generateSummary_2xx:
  assumes "summarizer e t = Inr r" and "200 \<le> status r \<and> status r \<le> 299"
  shows "(body r = None \<longrightarrow> (\<exists>m. fst (generateSummary e t w) = Inl (SyntaxError m))) \<and>
         (\<forall>data. body r = Some data \<longrightarrow>
            (nullish data \<or> nullish (property data ''choices'') \<or>
             nullish (item0 (property data ''choices'')) \<or>
             nullish (property (item0 (property data ''choices'')) ''message'') \<longrightarrow>
               (\<exists>m. fst (generateSummary e t w) = Inl (TypeError m))) \<and>
            (\<not> nullish data \<and> \<not> nullish (property data ''choices'') \<and>
             \<not> nullish (item0 (property data ''choices'')) \<and>
             \<not> nullish (property (item0 (property data ''choices'')) ''message'') \<longrightarrow>
               fst (generateSummary e t w) =
                 Inr (property (property (item0 (property data ''choices'')) ''message'') ''content''))) \<and>
         (\<forall>fs cf cs mf c.
            body r = Some (JObj fs) \<and> map_of fs ''choices'' = Some (JArr (JObj cf # cs)) \<and>
            map_of cf ''message'' = Some (JObj mf) \<and> map_of mf ''content'' = Some c \<longrightarrow>
              fst (generateSummary e t w) = Inr c) \<and>
         (\<forall>fs. body r = Some (JObj fs) \<and>
               (map_of fs ''choices'' = None \<or> map_of fs ''choices'' = Some (JArr [])) \<longrightarrow>
              (\<exists>m. fst (generateSummary e t w) = Inl (TypeError m)))"
proof -
  have o: "ok r" using assms(2) by (simp add: ok_def)
  have g: "fst (generateSummary e t w) =
             (case body r of
                None \<Rightarrow> Inl (SyntaxError ''Unexpected token in JSON'')
              | Some data \<Rightarrow> first_choice_content data)"
    using generate_ok [OF assms(1) o, of w] by simp
  have fails: "\<exists>m. first_choice_content data = Inl (TypeError m)"
    if "nullish data \<or> nullish (property data ''choices'') \<or>
        nullish (item0 (property data ''choices'')) \<or>
        nullish (property (item0 (property data ''choices'')) ''message'')" for data
  proof (cases "nullish data")
    case True
    then show ?thesis by (simp add: first_choice_content_def)
  next
    case d: False
    show ?thesis
    proof (cases "nullish (property data ''choices'')")
      case True
      with d show ?thesis by (simp add: first_choice_content_def)
    next
      case c: False
      show ?thesis
      proof (cases "nullish (item0 (property data ''choices''))")
        case True
        with d c show ?thesis by (simp add: first_choice_content_def)
      next
        case False
        with d c that show ?thesis by (simp add: first_choice_content_def)
      qed
    qed
  qed
  have returns: "first_choice_content data =
      Inr (property (property (item0 (property data ''choices'')) ''message'') ''content'')"
    if "\<not> nullish data \<and> \<not> nullish (property data ''choices'') \<and>
        \<not> nullish (item0 (property data ''choices'')) \<and>
        \<not> nullish (property (item0 (property data ''choices'')) ''message'')" for data
    using that by (simp add: first_choice_content_def)
  have shaped: "first_choice_content (JObj fs) = Inr c"
    if "map_of fs ''choices'' = Some (JArr (JObj cf # cs))" "map_of cf ''message'' = Some (JObj mf)"
       "map_of mf ''content'' = Some c" for fs cf cs mf c
    using that by (simp add: first_choice_content_def)
  have empty: "\<exists>m. first_choice_content (JObj fs) = Inl (TypeError m)"
    if "map_of fs ''choices'' = None \<or> map_of fs ''choices'' = Some (JArr [])" for fs
    using that by (auto simp: first_choice_content_def)
  show ?thesis
    unfolding g using fails returns shaped empty by (simp split: option.splits)
qed

theorem generateSummary_2xx_witness:
  "fst (generateSummary (answering not_found (ok_json (completion ''A short talk.'')))
     (JStr ''hello'') initial_world) = Inr (JStr ''A short talk.'') \<and>
   (\<exists>m. fst (generateSummary (answering not_found (ok_json (JObj [(''choices'', JArr [])])))
     (JStr ''hello'') initial_world) = Inl (TypeError m)) \<and>
   (\<exists>m. fst (generateSummary (answering not_found (ok_json JNull))
     (JStr ''hello'') initial_world) = Inl (TypeError m))"
proof -
  have a: "summarizer (answering not_found (ok_json v)) (JStr ''hello'') =
             Inr \<lparr>status = 200, statusText = ''OK'', body = Some v\<rparr>" for v
    by (simp add: answering_def ok_json_def)
  have s: "200 \<le> status \<lparr>status = 200, statusText = ''OK'', body = Some v\<rparr> \<and>
           status \<lparr>status = 200, statusText = ''OK'', body = Some v\<rparr> \<le> 299" for v :: jsval
    by simp
  show ?thesis
    using generateSummary_2xx [OF a s, of "completion ''A short talk.''" initial_world]
          generateSummary_2xx [OF a s, of "JObj [(''choices'', JArr [])]" initial_world]
          generateSummary_2xx [OF a s, of JNull initial_world]
    by (simp add: completion_def)
qed

text \<open>
  C8. For a summarizer response whose status is not 2xx, \<open>generateSummary\<close> throws an
  error whose message carries the status code and the reason phrase, and the log
  already holds an error record with that message when the error reaches the caller.
\<close>

theorem generateSummary_non2xx:
  assumes "summarizer e t = Inr r" and "status r < 200 \<or> 299 < status r"
  shows "generateSummary e t w =
           (Inl (Error (''Hugging Face API error: '' @ decimal (status r) @ '' '' @ statusText r)),
            w\<lparr>summarized := summarized w @ [t],
              log := log w @
                [\<lparr>lvl = Err, cause = None,
                  msg = ''Hugging Face API error: '' @ decimal (status r) @ '' '' @ statusText r\<rparr>]\<rparr>)"
proof -
  have "\<not> ok r" using assms(2) by (auto simp: ok_def)
  then show ?thesis
    using assms(1) by (simp add: generateSummary_def log_error_def Let_def)
qed

theorem generateSummary_non2xx_witness:
  "generateSummary
     (answering not_found (Inr \<lparr>status = 503, statusText = ''Service Unavailable'', body = None\<rparr>))
     (JStr ''hello'') initial_world =
   (Inl (Error ''Hugging Face API error: 503 Service Unavailable''),
    initial_world\<lparr>summarized := [JStr ''hello''],
      log := [\<lparr>lvl = Err, cause = None, msg = ''Hugging Face API error: 503 Service Unavailable''\<rparr>]\<rparr>)"
proof -
  let ?r = "\<lparr>status = 503, statusText = ''Service Unavailable'', body = None\<rparr>"
  have a: "summarizer (answering not_found (Inr ?r)) (JStr ''hello'') = Inr ?r"
    by (simp add: answering_def)
  have s: "status ?r < 200 \<or> 299 < status ?r" by simp
  have n: "decimal 503 = ''503''" by code_simp
  show ?thesis
    using generateSummary_non2xx [OF a s, of initial_world]
    by (simp add: n initial_world_def)
qed

section \<open>Failure policy of the jobs\<close>

text \<open>
  The job of the HTTP trigger. When a step fails, the steps after it are not run (a
  failed resolution leaves the summarizer uncalled), the table is as it was, and the
  log ends with an error record that carries the cause and names the lecture. The job
  returns a world and nothing else, so nothing reaches a caller.
\<close>

lemma summary_job_failure:
  assumes "summary_job_try e j w = (Inl err, w1)"
  shows "rows (summary_job e j w) = rows w"
    and "log (summary_job e j w) = log w1 @
           [\<lparr>lvl = Err, cause = Some err,
             msg = ''Failed to generate or save summary for lecture '' @ job_lectureId j\<rparr>]"
    and "fst (resolve_transcription e j w) = Inl err' \<Longrightarrow>
           summarized (summary_job e j w) = summarized w"
proof -
  have rows_w1: "rows w1 = rows w"
  proof (cases rule: summary_job_try_cases [of e j w])
    case (resolve_failed err0 w0)
    then show ?thesis using assms resolve_fields(1) [of e j w] by simp
  next
    case (summarize_failed t w0 err0 w2)
    then show ?thesis
      using assms resolve_fields(1) [of e j w]
        generate_fields(1) [of e t "log_info (''Generating summary for lecture '' @ job_lectureId j) w0"]
      by simp
  next
    case (saving t w0 s w2)
    then have "w1 = log_info (''Saving summary for lecture '' @ job_lectureId j) w2"
      using assms save_failure_unchanged by metis
    then show ?thesis
      using saving resolve_fields(1) [of e j w]
        generate_fields(1) [of e t "log_info (''Generating summary for lecture '' @ job_lectureId j) w0"]
      by simp
  qed
  show "rows (summary_job e j w) = rows w"
    using assms rows_w1 by (simp add: summary_job_def)
  show "log (summary_job e j w) = log w1 @
           [\<lparr>lvl = Err, cause = Some err,
             msg = ''Failed to generate or save summary for lecture '' @ job_lectureId j\<rparr>]"
    using assms by (simp add: summary_job_def)
  show "summarized (summary_job e j w) = summarized w"
    if "fst (resolve_transcription e j w) = Inl err'"
  proof (cases rule: summary_job_try_cases [of e j w])
    case (resolve_failed err0 w0)
    then show ?thesis
      using resolve_fields(2) [of e j w] by (simp add: summary_job_fields)
  next
    case (summarize_failed t w0 err0 w2)
    then show ?thesis using that by simp
  next
    case (saving t w0 s w2)
    then show ?thesis using that by simp
  qed
qed

text \<open>
  The handler of the bus trigger. Whatever fails in its \<open>try\<close> block, the handler
  throws \<open>ReferenceError: lectureId is not defined\<close> and logs nothing about the
  failure itself.
\<close>

lemma transcription_completed_failure:
  assumes "transcription_completed_try e data w = (Inl err, w1)"
  shows "transcription_completed e data w = (Inl (ReferenceError ''lectureId is not defined''), w1)"
  using assms by (simp add: transcription_completed_def transcription_completed_catch_def)

text \<open>
  C3 fails on the bus trigger. The event names lecture \<open>L1\<close> and a transcript URL that
  answers 404. The remaining steps are skipped and no row is written, but the only
  error record in the log comes from the subscription loop and reads
  \<open>lectureId is not defined\<close>: it carries neither the lecture nor the cause
  (\<open>Failed to fetch transcription JSON: 404 Not Found\<close>), and the handler did throw to
  its caller.
\<close>

theorem completed_failure_loses_cause:
  "transcription_completed (answering not_found (ok_json (completion ''A short talk.'')))
     (JObj [(''lecture_id'', JStr ''L1''), (''transcription_json_url'', JStr ''http://t/1.json'')])
     initial_world =
     (Inl (ReferenceError ''lectureId is not defined''),
      initial_world\<lparr>fetched := [JStr ''http://t/1.json''],
        log := [\<lparr>lvl = Info, cause = None,
                 msg = ''Received transcription completed message for lecture L1''\<rparr>]\<rparr>) \<and>
   completed_subscription (answering not_found (ok_json (completion ''A short talk.'')))
     [Json (JObj [(''lecture_id'', JStr ''L1''), (''transcription_json_url'', JStr ''http://t/1.json'')])]
     initial_world =
     (Inr (),
      initial_world\<lparr>fetched := [JStr ''http://t/1.json''],
        log := [\<lparr>lvl = Info, cause = None,
                 msg = ''Subscribed to NATS subject: transcriptions.completed''\<rparr>,
                \<lparr>lvl = Info, cause = None,
                 msg = ''Received transcription completed message for lecture L1''\<rparr>,
                \<lparr>lvl = Err, cause = None,
                 msg = ''Error handling message on subject transcriptions.completed: lectureId is not defined''\<rparr>]\<rparr>)"
proof -
  have n: "decimal 404 = ''404''" by code_simp
  show ?thesis
    by (simp add: completed_subscription_def subscribeJson_def transcription_completed_def
          transcription_completed_catch_def transcription_completed_try_def
          retrieveJsonTranscription_def answering_def not_found_def ok_def log_info_def log_error_def
          initial_world_def n Let_def)
qed

section \<open>Subscription loop\<close>

text \<open>A payload that does not decode ends the loop, whatever messages follow it.\<close>

lemma decode_failure_ends_loop:
  "subscription_loop subject handler (NotJson bytes # ms) w = (Inl (NatsError ''BAD_JSON''), w)"
  by simp

text \<open>An exception of the handler is logged and the loop goes on with the next
  message.\<close>

lemma handler_exception_continues:
  assumes "handler data w = (Inl err, w1)"
  shows "subscription_loop subject handler (Json data # ms) w =
           subscription_loop subject handler ms
             (log_error None (''Error handling message on subject '' @ subject @ '': '' @ message err) w1)"
  using assms by simp

text \<open>
  C9 fails on a decode failure. Two messages arrive: one whose payload is not JSON,
  then a well-formed event for a lecture. The loop ends with the codec's error at
  the first message: nothing about it is logged, and the second message is never
  handled (no fetch, no summary, no row). The same event alone is handled and stores
  a summary.
\<close>

theorem decode_failure_stops_subscription:
  "completed_subscription
     (answering (ok_json (segments [''a'', ''b''])) (ok_json (completion ''A short talk.'')))
     [NotJson ''{'',
      Json (JObj [(''lecture_id'', JStr lecture_a), (''transcription_json_url'', JStr ''http://t/1.json'')])]
     initial_world =
     (Inl (NatsError ''BAD_JSON''),
      initial_world\<lparr>log := [\<lparr>lvl = Info, cause = None,
                              msg = ''Subscribed to NATS subject: transcriptions.completed''\<rparr>]\<rparr>) \<and>
   rows (snd (completed_subscription
     (answering (ok_json (segments [''a'', ''b''])) (ok_json (completion ''A short talk.'')))
     [Json (JObj [(''lecture_id'', JStr lecture_a), (''transcription_json_url'', JStr ''http://t/1.json'')])]
     initial_world)) =
     [\<lparr>id = 0, lecture_id = digits_a, summary_text = ''A short talk.'', timestamp = 0\<rparr>]"
  by (simp add: completed_subscription_def subscribeJson_def transcription_completed_def
        transcription_completed_try_def retrieveJsonTranscription_def generateSummary_def
        saveSummary_def first_choice_content_def uuid_samples
        answering_def ok_json_def segments_def completion_def ok_def json_def js_join_def
        log_info_def initial_world_def Let_def)

section \<open>A request from trigger to read\<close>

text \<open>
  \<open>POST\<close> with an inline transcription is answered 202 while the table is still empty;
  once the event loop has run the job, \<open>GET\<close> for the lecture answers 200 with the
  summary that the summarizer gave.
\<close>

lemma post_then_get:
  "fst (post_summary lecture_a (JObj [(''transcription'', JStr ''hello world'')]) initial_world) =
     Inr \<lparr>code = 202, payload = JObj [(''message'', JStr ''Summary generation started'')]\<rparr> \<and>
   rows (snd (post_summary lecture_a (JObj [(''transcription'', JStr ''hello world'')]) initial_world)) = [] \<and>
   fst (get_summary (answering not_found (ok_json (completion ''A short talk.''))) lecture_a
     (run_next (answering not_found (ok_json (completion ''A short talk.'')))
        (snd (post_summary lecture_a (JObj [(''transcription'', JStr ''hello world'')]) initial_world)))) =
     \<lparr>code = 200, payload = JObj [(''summary'', JStr ''A short talk.'')]\<rparr>"
  by (simp add: post_summary_def destructure_body_def run_next_def summary_job_def summary_job_try_def
        resolve_transcription_def generateSummary_def saveSummary_def first_choice_content_def
        get_summary_def findFirst_def uuid_samples answering_def ok_json_def completion_def ok_def json_def
        log_info_def initial_world_def Let_def)

end
